theory Spec2Isabelle
  imports Complex_Main
begin

section \<open>JavaScript numbers\<close>

text \<open>
  A \<open>Number\<close> is a finite value, one of the two infinities, or \<open>NaN\<close>; a request body
  can carry an infinity (JSON \<open>1e999\<close>), and the scoring rule can turn two of them into
  \<open>NaN\<close>. The operations follow the language: \<open>NaN\<close> absorbs, opposite infinities add
  up to \<open>NaN\<close>, every comparison with \<open>NaN\<close> is false, \<open>Math.min\<close> and \<open>Math.max\<close>
  return \<open>NaN\<close> when an argument is \<open>NaN\<close>. Finite values are reals and their arithmetic
  is exact: the rounding of doubles is not modelled, and neither is the sign of zero (the
  program divides by non-zero constants only).
\<close>

datatype number = Num real | PInf | NInf | NaN

fun negate :: "number \<Rightarrow> number" where
  "negate (Num a) = Num (- a)"
| "negate PInf = NInf"
| "negate NInf = PInf"
| "negate NaN = NaN"

instantiation number :: "{plus, minus, times, inverse, ord}"
begin

fun plus_number :: "number \<Rightarrow> number \<Rightarrow> number" where
  "plus_number (Num a) (Num b) = Num (a + b)"
| "plus_number NaN y = NaN"
| "plus_number x NaN = NaN"
| "plus_number PInf NInf = NaN"
| "plus_number NInf PInf = NaN"
| "plus_number PInf y = PInf"
| "plus_number x PInf = PInf"
| "plus_number NInf y = NInf"
| "plus_number x NInf = NInf"

definition minus_number :: "number \<Rightarrow> number \<Rightarrow> number" where
  "minus_number x y = x + negate y"

fun times_number :: "number \<Rightarrow> number \<Rightarrow> number" where
  "times_number (Num a) (Num b) = Num (a * b)"
| "times_number NaN y = NaN"
| "times_number x NaN = NaN"
| "times_number PInf (Num b) = (if b = 0 then NaN else if 0 < b then PInf else NInf)"
| "times_number NInf (Num b) = (if b = 0 then NaN else if 0 < b then NInf else PInf)"
| "times_number (Num a) PInf = (if a = 0 then NaN else if 0 < a then PInf else NInf)"
| "times_number (Num a) NInf = (if a = 0 then NaN else if 0 < a then NInf else PInf)"
| "times_number PInf PInf = PInf"
| "times_number PInf NInf = NInf"
| "times_number NInf PInf = NInf"
| "times_number NInf NInf = PInf"

fun divide_number :: "number \<Rightarrow> number \<Rightarrow> number" where
  "divide_number (Num a) (Num b) =
     (if b = 0 then (if a = 0 then NaN else if 0 < a then PInf else NInf) else Num (a / b))"
| "divide_number NaN y = NaN"
| "divide_number x NaN = NaN"
| "divide_number (Num a) y = Num 0"
| "divide_number PInf (Num b) = (if 0 \<le> b then PInf else NInf)"
| "divide_number NInf (Num b) = (if 0 \<le> b then NInf else PInf)"
| "divide_number x y = NaN"

definition inverse_number :: "number \<Rightarrow> number" where
  "inverse_number x = divide (Num 1) x"

fun less_number :: "number \<Rightarrow> number \<Rightarrow> bool" where
  "less_number (Num a) (Num b) = (a < b)"
| "less_number NaN y = False"
| "less_number x NaN = False"
| "less_number x NInf = False"
| "less_number PInf y = False"
| "less_number x y = True"

definition less_eq_number :: "number \<Rightarrow> number \<Rightarrow> bool" where
  "less_eq_number x y = (x < y \<or> (x = y \<and> x \<noteq> NaN))"

instance ..

end

definition Math_min :: "number \<Rightarrow> number \<Rightarrow> number" where
  "Math_min x y = (if x = NaN \<or> y = NaN then NaN else if x < y then x else y)"

definition Math_max :: "number \<Rightarrow> number \<Rightarrow> number" where
  "Math_max x y = (if x = NaN \<or> y = NaN then NaN else if x < y then y else x)"

fun Math_abs :: "number \<Rightarrow> number" where
  "Math_abs (Num a) = Num \<bar>a\<bar>"
| "Math_abs PInf = PInf"
| "Math_abs NInf = PInf"
| "Math_abs NaN = NaN"


section \<open>Data model (server/models/Customer.js)\<close>

text \<open>
  A \<open>Date\<close> is a number of milliseconds. The strings of the two enums are the
  constructors of two datatypes. A string is a list of bytes.
\<close>

type_synonym date = nat

datatype Status = active | churned | at_risk

datatype RiskLevel = low | medium | high

datatype InteractionType = i_email | i_call | i_meeting | i_support

record FeatureSet =
  daysSinceLastLogin :: number
  avgSessionDuration :: number
  totalTransactions :: number
  avgTransactionValue :: number
  productUsage :: number
  supportSatisfaction :: number
  contractRenewalHistory :: number

record Prediction =
  date :: date
  churnProbability :: number
  riskLevel :: RiskLevel
  factors :: "string list"
  modelVersion :: string

record Interaction =
  idate :: date
  itype :: InteractionType
  description :: string
  outcome :: string

text \<open>\<open>cid\<close> is the document's \<open>_id\<close> and \<open>versionKey\<close> its \<open>__v\<close>; \<open>createdAt\<close> and
  \<open>updatedAt\<close> are the two fields that the schema option \<open>timestamps: true\<close> adds.\<close>

record Customer =
  cid :: nat
  name :: string
  email :: string
  company :: string
  subscriptionValue :: number
  lastActivity :: date
  supportTickets :: number
  loginFrequency :: number
  contractLength :: number
  churnRisk :: number
  status :: Status
  features :: FeatureSet
  predictions :: "Prediction list"
  interactions :: "Interaction list"
  createdAt :: date
  updatedAt :: date
  versionKey :: nat

section \<open>The scoring rule: calculateChurnRisk and determineStatus\<close>

record Weights =
  w_daysSinceLastLogin :: number
  w_supportTickets :: number
  w_loginFrequency :: number
  w_contractLength :: number
  w_supportSatisfaction :: number
  w_subscriptionValue :: number
  w_productUsage :: number

definition weights :: Weights where
  "weights = \<lparr> w_daysSinceLastLogin = Num 0.25,
               w_supportTickets = Num 0.20,
               w_loginFrequency = Num (- 0.15),
               w_contractLength = Num (- 0.10),
               w_supportSatisfaction = Num (- 0.15),
               w_subscriptionValue = Num (- 0.10),
               w_productUsage = Num (- 0.05) \<rparr>"

text \<open>The seven terms that lines 112 to 130 add to \<open>risk\<close>, one definition per line.\<close>

definition term_daysSinceLastLogin :: "Customer \<Rightarrow> number" where
  "term_daysSinceLastLogin c =
     (daysSinceLastLogin (features c) / Num 30) * w_daysSinceLastLogin weights"

definition term_supportTickets :: "Customer \<Rightarrow> number" where
  "term_supportTickets c =
     Math_min (supportTickets c / Num 10) (Num 1) * w_supportTickets weights"

definition term_loginFrequency :: "Customer \<Rightarrow> number" where
  "term_loginFrequency c =
     (Num 1 - Math_min (loginFrequency c / Num 30) (Num 1))
       * Math_abs (w_loginFrequency weights)"

definition term_contractLength :: "Customer \<Rightarrow> number" where
  "term_contractLength c =
     (Num 1 - Math_min (contractLength c / Num 36) (Num 1))
       * Math_abs (w_contractLength weights)"

definition term_supportSatisfaction :: "Customer \<Rightarrow> number" where
  "term_supportSatisfaction c =
     (Num 1 - supportSatisfaction (features c) / Num 10)
       * Math_abs (w_supportSatisfaction weights)"

definition term_subscriptionValue :: "Customer \<Rightarrow> number" where
  "term_subscriptionValue c =
     (Num 1 - Math_min (subscriptionValue c / Num 10000) (Num 1))
       * Math_abs (w_subscriptionValue weights)"

definition term_productUsage :: "Customer \<Rightarrow> number" where
  "term_productUsage c =
     (Num 1 - Math_min (productUsage (features c) / Num 100) (Num 1))
       * Math_abs (w_productUsage weights)"

definition calculateChurnRisk :: "Customer \<Rightarrow> number" where
  "calculateChurnRisk c =
     (let risk = Num 0.5;
          risk = risk + term_daysSinceLastLogin c;
          risk = risk + term_supportTickets c;
          risk = risk + term_loginFrequency c;
          risk = risk + term_contractLength c;
          risk = risk + term_supportSatisfaction c;
          risk = risk + term_subscriptionValue c;
          risk = risk + term_productUsage c
      in Math_max (Num 0) (Math_min (Num 1) risk))"

definition determineStatus :: "Customer \<Rightarrow> Status" where
  "determineStatus c =
     (if churnRisk c < Num 0.3 then active
      else if churnRisk c < Num 0.7 then at_risk
      else churned)"

text \<open>The conditional expression of routes/customers.js, lines 120 and 232.\<close>

definition riskLevelOf :: "number \<Rightarrow> RiskLevel" where
  "riskLevelOf p =
     (if p < Num 0.3 then low
      else if p < Num 0.7 then medium
      else high)"

text \<open>The factor rules of the predict route, lines 122 to 126: four pushes in order.\<close>

definition explainFactors :: "Customer \<Rightarrow> string list" where
  "explainFactors customer =
     (let fs = [];
          fs = (if daysSinceLastLogin (features customer) > Num 14
                then fs @ [''Inactive user''] else fs);
          fs = (if supportTickets customer > Num 5
                then fs @ [''High support volume''] else fs);
          fs = (if supportSatisfaction (features customer) < Num 6
                then fs @ [''Low satisfaction''] else fs);
          fs = (if loginFrequency customer < Num 5
                then fs @ [''Low engagement''] else fs)
      in fs)"

text \<open>The rule table as the specification words it: a condition and its string, in the
  order in which they are checked.\<close>

definition spec_factor_rules :: "((Customer \<Rightarrow> bool) \<times> string) list" where
  "spec_factor_rules =
     [(\<lambda>c. daysSinceLastLogin (features c) > Num 14, ''Inactive user''),
      (\<lambda>c. supportTickets c > Num 5, ''High support volume''),
      (\<lambda>c. supportSatisfaction (features c) < Num 6, ''Low satisfaction''),
      (\<lambda>c. loginFrequency c < Num 5, ''Low engagement'')]"


section \<open>The collection and its write paths (routes/customers.js)\<close>

text \<open>
  The collection is the list of its documents. \<open>findById\<close> returns the document with
  the given \<open>_id\<close>, or nothing; \<open>replaceDoc\<close> writes a document back in the place of
  the stored one with the same \<open>_id\<close>.
\<close>

datatype error = NotFound | ValidationError | Conflict | ServerError

type_synonym db = "Customer list"

definition findById :: "db \<Rightarrow> nat \<Rightarrow> Customer option" where
  "findById d i = find (\<lambda>c. cid c = i) d"

definition replaceDoc :: "db \<Rightarrow> Customer \<Rightarrow> db" where
  "replaceDoc d c = map (\<lambda>x. if cid x = cid c then c else x) d"

text \<open>
  An assignment to the path \<open>churnRisk\<close> of a document goes through the cast of the
  schema type, which refuses \<open>NaN\<close>: the path keeps its value and the document fails its
  next validation.
\<close>

definition setChurnRisk :: "Customer \<Rightarrow> number \<Rightarrow> Customer" where
  "setChurnRisk c v = (if v = NaN then c else c\<lparr>churnRisk := v\<rparr>)"

text \<open>
  The hook of lines 89 to 95. What Mongoose tracks about the document, whether it is new and
  whether a path under \<open>features\<close> was assigned since it was loaded, is passed as two
  flags.
\<close>

definition pre_save :: "bool \<Rightarrow> bool \<Rightarrow> Customer \<Rightarrow> Customer" where
  "pre_save featuresModified isNew c =
     (if featuresModified \<or> isNew
      then (let c1 = setChurnRisk c (calculateChurnRisk c)
            in c1\<lparr>status := determineStatus c1\<rparr>)
      else c)"

text \<open>
  \<open>save\<close> of a loaded document, as the two prediction routes call it: the validators of
  the paths the route assigned (\<open>churnRisk\<close> and the \<open>churnProbability\<close> of the pushed
  record, both with \<open>min: 0, max: 1\<close>; a value that is \<open>NaN\<close> passes neither) run first,
  then the hook with both flags false; then \<open>updatedAt\<close> is stamped, the version key is
  incremented for the push, and the document is written. A failed validation rejects the
  save and writes nothing.
\<close>

definition validRisk :: "number \<Rightarrow> bool" where
  "validRisk v = (Num 0 \<le> v \<and> v \<le> Num 1)"

definition validPrediction :: "Prediction \<Rightarrow> bool" where
  "validPrediction p = validRisk (churnProbability p)"

definition saveLoaded :: "db \<Rightarrow> Customer \<Rightarrow> Prediction \<Rightarrow> date \<Rightarrow> error + db" where
  "saveLoaded d c pushed savedAt =
     (if validRisk (churnRisk c) \<and> validPrediction pushed
      then Inr (replaceDoc d ((pre_save False False c)
                  \<lparr>updatedAt := savedAt, versionKey := versionKey c + 1\<rparr>))
      else Inl ValidationError)"

subsection \<open>POST /:id/predict\<close>

record PredictResponse =
  r_prediction :: Prediction
  r_id :: nat
  r_churnRisk :: number
  r_status :: Status

definition predict :: "db \<Rightarrow> nat \<Rightarrow> date \<Rightarrow> date \<Rightarrow> error + (PredictResponse \<times> db)" where
  "predict d i now savedAt =
     (case findById d i of
        None \<Rightarrow> Inl NotFound
      | Some customer \<Rightarrow>
          (let p = calculateChurnRisk customer;
               lvl = riskLevelOf p;
               fs = explainFactors customer;
               prediction = \<lparr> date = now, churnProbability = p, riskLevel = lvl,
                              factors = fs, modelVersion = ''1.0'' \<rparr>;
               customer = customer\<lparr>predictions := predictions customer @ [prediction]\<rparr>;
               customer = setChurnRisk customer p;
               customer = customer\<lparr>status := determineStatus customer\<rparr>
           in case saveLoaded d customer prediction savedAt of
                Inl e \<Rightarrow> Inl ServerError
              | Inr d' \<Rightarrow>
                  Inr (\<lparr> r_prediction = prediction, r_id = cid customer,
                          r_churnRisk = churnRisk customer, r_status = status customer \<rparr>,
                       d')))"

subsection \<open>POST /predict/bulk\<close>

text \<open>The callback of \<open>customers.map\<close>, up to the call of \<open>save\<close>: the document it
  is about to save and the record it pushed.\<close>

definition bulkStep :: "date \<Rightarrow> Customer \<Rightarrow> Customer \<times> Prediction" where
  "bulkStep now customer =
     (let p = calculateChurnRisk customer;
          lvl = riskLevelOf p;
          customer = setChurnRisk customer p;
          customer = customer\<lparr>status := determineStatus customer\<rparr>;
          prediction = \<lparr> date = now, churnProbability = p, riskLevel = lvl,
                         factors = [], modelVersion = ''1.0'' \<rparr>;
          customer = customer\<lparr>predictions := predictions customer @ [prediction]\<rparr>
      in (customer, prediction))"

text \<open>\<open>Promise.all\<close> over the saves: every save is attempted; the result is a failure
  when one of them was rejected, and the writes of the others stay. The clock readings of
  one request are taken as one value \<open>now\<close> for the records and one value \<open>savedAt\<close>
  for the saves.\<close>

fun saveAll :: "db \<Rightarrow> date \<Rightarrow> (Customer \<times> Prediction) list \<Rightarrow> bool \<times> db" where
  "saveAll d savedAt [] = (True, d)"
| "saveAll d savedAt ((c, p) # rest) =
     (case saveLoaded d c p savedAt of
        Inl e \<Rightarrow> (False, snd (saveAll d savedAt rest))
      | Inr d' \<Rightarrow> saveAll d' savedAt rest)"

definition bulkPredict :: "db \<Rightarrow> date \<Rightarrow> date \<Rightarrow> (error + nat) \<times> db" where
  "bulkPredict d now savedAt =
     (let customers = filter (\<lambda>c. status c \<noteq> churned) d;
          updates = map (bulkStep now) customers;
          (ok, d') = saveAll d savedAt updates
      in (if ok then Inr (length customers) else Inl ServerError, d'))"

subsection \<open>POST / and PUT /:id\<close>

text \<open>
  The string setters of the schema: \<open>trim\<close> on the three strings, \<open>lowercase\<close> on the
  email. Both are modelled on ASCII: the white space removed is space, tab, line feed,
  vertical tab, form feed and carriage return, and the letters lowered are A to Z.
\<close>

definition isSpace :: "char \<Rightarrow> bool" where
  "isSpace ch = ((of_char ch :: nat) \<in> {9, 10, 11, 12, 13, 32})"

definition trim :: "string \<Rightarrow> string" where
  "trim s = rev (dropWhile isSpace (rev (dropWhile isSpace s)))"

definition toLowerChar :: "char \<Rightarrow> char" where
  "toLowerChar ch =
     (case map_of (zip ''ABCDEFGHIJKLMNOPQRSTUVWXYZ'' ''abcdefghijklmnopqrstuvwxyz'') ch of
        None \<Rightarrow> ch
      | Some l \<Rightarrow> l)"

definition toLowerCase :: "string \<Rightarrow> string" where
  "toLowerCase s = map toLowerChar s"

text \<open>
  A request body names any subset of the schema's paths; a path that the body does not
  name is \<open>None\<close>. A body that names \<open>features\<close> gives the whole object.
\<close>

record CustomerBody =
  b_name :: "string option"
  b_email :: "string option"
  b_company :: "string option"
  b_subscriptionValue :: "number option"
  b_lastActivity :: "date option"
  b_supportTickets :: "number option"
  b_loginFrequency :: "number option"
  b_contractLength :: "number option"
  b_churnRisk :: "number option"
  b_status :: "Status option"
  b_features :: "FeatureSet option"
  b_predictions :: "Prediction list option"
  b_interactions :: "Interaction list option"

definition defaultFeatures :: FeatureSet where
  "defaultFeatures = \<lparr> daysSinceLastLogin = Num 0, avgSessionDuration = Num 0,
       totalTransactions = Num 0, avgTransactionValue = Num 0, productUsage = Num 0,
       supportSatisfaction = Num 5, contractRenewalHistory = Num 0 \<rparr>"

definition orDefault :: "'a \<Rightarrow> 'a option \<Rightarrow> 'a" where
  "orDefault x v = (case v of None \<Rightarrow> x | Some y \<Rightarrow> y)"

definition holds :: "('a \<Rightarrow> bool) \<Rightarrow> 'a option \<Rightarrow> bool" where
  "holds P v = (case v of None \<Rightarrow> True | Some y \<Rightarrow> P y)"

text \<open>The cast of a \<open>Number\<close> path refuses \<open>NaN\<close>; the infinities pass it.\<close>

definition castable :: "number \<Rightarrow> bool" where
  "castable v = (v \<noteq> NaN)"

definition validFeatures :: "FeatureSet \<Rightarrow> bool" where
  "validFeatures f =
     (castable (daysSinceLastLogin f) \<and> castable (avgSessionDuration f) \<and>
      castable (totalTransactions f) \<and> castable (avgTransactionValue f) \<and>
      castable (productUsage f) \<and> castable (contractRenewalHistory f) \<and>
      Num 1 \<le> supportSatisfaction f \<and> supportSatisfaction f \<le> Num 10)"

text \<open>The casts and the validators of the schema (\<open>required\<close> on a named string, which
  an empty string fails after \<open>trim\<close>; \<open>min\<close>, \<open>max\<close>), on the paths that a body names.\<close>

definition validBody :: "CustomerBody \<Rightarrow> bool" where
  "validBody b =
     (holds (\<lambda>s. trim s \<noteq> []) (b_name b) \<and>
      holds (\<lambda>s. trim s \<noteq> []) (b_email b) \<and>
      holds (\<lambda>s. trim s \<noteq> []) (b_company b) \<and>
      holds (\<lambda>v. Num 0 \<le> v) (b_subscriptionValue b) \<and>
      holds (\<lambda>v. Num 0 \<le> v) (b_supportTickets b) \<and>
      holds (\<lambda>v. Num 0 \<le> v) (b_loginFrequency b) \<and>
      holds (\<lambda>v. Num 1 \<le> v) (b_contractLength b) \<and>
      holds validRisk (b_churnRisk b) \<and>
      holds validFeatures (b_features b) \<and>
      holds (list_all validPrediction) (b_predictions b))"

definition hasRequired :: "CustomerBody \<Rightarrow> bool" where
  "hasRequired b =
     (b_name b \<noteq> None \<and> b_email b \<noteq> None \<and> b_company b \<noteq> None \<and>
      b_subscriptionValue b \<noteq> None \<and> b_contractLength b \<noteq> None)"

text \<open>\<open>new Customer(req.body)\<close>: the named paths, through their setters, and the schema's
  defaults for the rest.\<close>

definition newCustomer :: "nat \<Rightarrow> date \<Rightarrow> CustomerBody \<Rightarrow> Customer" where
  "newCustomer i now b =
     \<lparr> cid = i,
       name = trim (orDefault [] (b_name b)),
       email = toLowerCase (trim (orDefault [] (b_email b))),
       company = trim (orDefault [] (b_company b)),
       subscriptionValue = orDefault (Num 0) (b_subscriptionValue b),
       lastActivity = orDefault now (b_lastActivity b),
       supportTickets = orDefault (Num 0) (b_supportTickets b),
       loginFrequency = orDefault (Num 0) (b_loginFrequency b),
       contractLength = orDefault (Num 0) (b_contractLength b),
       churnRisk = orDefault (Num 0) (b_churnRisk b),
       status = orDefault active (b_status b),
       features = orDefault defaultFeatures (b_features b),
       predictions = orDefault [] (b_predictions b),
       interactions = orDefault [] (b_interactions b),
       createdAt = now,
       updatedAt = now,
       versionKey = 0 \<rparr>"

text \<open>
  The create route: \<open>save\<close> of a new document validates it, runs the hook with
  \<open>isNew\<close>, and inserts; the unique indexes refuse a second document with the same
  \<open>_id\<close> or email (error 11000).
\<close>

definition createCustomer :: "db \<Rightarrow> nat \<Rightarrow> date \<Rightarrow> CustomerBody \<Rightarrow> error + (Customer \<times> db)" where
  "createCustomer d i now body =
     (if \<not> (hasRequired body \<and> validBody body) then Inl ValidationError
      else (let customer = pre_save False True (newCustomer i now body)
            in if list_ex (\<lambda>x. cid x = i \<or> email x = email customer) d then Inl Conflict
               else Inr (customer, d @ [customer])))"

text \<open>
  The update route calls \<open>findByIdAndUpdate\<close> with \<open>runValidators\<close>: the casts and the
  validators run on the paths of the body, the named paths are set in the stored document
  and \<open>updatedAt\<close> is stamped. This is a query, not a \<open>save\<close>: the hook registered with
  \<open>pre('save')\<close> is not called.
\<close>

definition applyBody :: "CustomerBody \<Rightarrow> Customer \<Rightarrow> Customer" where
  "applyBody b c =
     c\<lparr> name := orDefault (name c) (map_option trim (b_name b)),
        email := orDefault (email c) (map_option (\<lambda>s. toLowerCase (trim s)) (b_email b)),
        company := orDefault (company c) (map_option trim (b_company b)),
        subscriptionValue := orDefault (subscriptionValue c) (b_subscriptionValue b),
        lastActivity := orDefault (lastActivity c) (b_lastActivity b),
        supportTickets := orDefault (supportTickets c) (b_supportTickets b),
        loginFrequency := orDefault (loginFrequency c) (b_loginFrequency b),
        contractLength := orDefault (contractLength c) (b_contractLength b),
        churnRisk := orDefault (churnRisk c) (b_churnRisk b),
        status := orDefault (status c) (b_status b),
        features := orDefault (features c) (b_features b),
        predictions := orDefault (predictions c) (b_predictions b),
        interactions := orDefault (interactions c) (b_interactions b) \<rparr>"

definition updateCustomer :: "db \<Rightarrow> nat \<Rightarrow> date \<Rightarrow> CustomerBody \<Rightarrow> error + (Customer \<times> db)" where
  "updateCustomer d i now body =
     (if \<not> validBody body then Inl ValidationError
      else case findById d i of
             None \<Rightarrow> Inl NotFound
           | Some c \<Rightarrow>
               (let customer = (applyBody body c)\<lparr>updatedAt := now\<rparr>
                in if list_ex (\<lambda>x. cid x \<noteq> i \<and> email x = email customer) d
                   then Inl Conflict
                   else Inr (customer, replaceDoc d customer)))"

definition emptyBody :: CustomerBody where
  "emptyBody = \<lparr> b_name = None, b_email = None, b_company = None,
       b_subscriptionValue = None, b_lastActivity = None, b_supportTickets = None,
       b_loginFrequency = None, b_contractLength = None, b_churnRisk = None,
       b_status = None, b_features = None, b_predictions = None,
       b_interactions = None \<rparr>"

subsection \<open>GET /analytics/summary: the risk histogram\<close>

text \<open>
  The \<open>$bucket\<close> stage of lines 174 to 186. For each adjacent pair of \<open>boundaries\<close> the
  database makes a bucket named by the lower one, which it includes, up to the upper one,
  which it excludes; a value that falls in no pair goes to the bucket named by
  \<open>default\<close>. Buckets without a document are not returned.
\<close>

datatype BucketId = Lower number | Other

fun bucketOf :: "number list \<Rightarrow> number \<Rightarrow> BucketId" where
  "bucketOf (lo # hi # bs) x = (if lo \<le> x \<and> x < hi then Lower lo else bucketOf (hi # bs) x)"
| "bucketOf bs x = Other"

record Bucket =
  bk_id :: BucketId
  bk_count :: nat
  bk_customers :: "(string \<times> string \<times> number) list"

definition boundaries :: "number list" where
  "boundaries = [Num 0, Num 0.3, Num 0.7, Num 1.0]"

definition bucketFor :: "db \<Rightarrow> BucketId \<Rightarrow> Bucket" where
  "bucketFor d k =
     (let members = filter (\<lambda>c. bucketOf boundaries (churnRisk c) = k) d
      in \<lparr> bk_id = k, bk_count = length members,
           bk_customers = map (\<lambda>c. (name c, email c, churnRisk c)) members \<rparr>)"

definition riskDistribution :: "db \<Rightarrow> Bucket list" where
  "riskDistribution d =
     filter (\<lambda>b. bk_count b > 0)
       (map (bucketFor d) (map Lower (butlast boundaries) @ [Other]))"

definition totalCustomers :: "db \<Rightarrow> nat" where
  "totalCustomers d = length d"

subsection \<open>Inputs of the scenarios\<close>

text \<open>A stored customer with the field values of the specification's first scenario
  (section 8), and the derived fields as the schema's defaults leave them.\<close>

definition baseline :: "nat \<Rightarrow> Customer" where
  "baseline i =
     \<lparr> cid = i, name = ''A'', email = ''a@x'', company = ''X'',
       subscriptionValue = Num 10000, lastActivity = 0, supportTickets = Num 0,
       loginFrequency = Num 30, contractLength = Num 36, churnRisk = Num 0,
       status = active,
       features = \<lparr> daysSinceLastLogin = Num 0, avgSessionDuration = Num 0,
         totalTransactions = Num 0, avgTransactionValue = Num 0, productUsage = Num 100,
         supportSatisfaction = Num 10, contractRenewalHistory = Num 0 \<rparr>,
       predictions = [], interactions = [], createdAt = 0, updatedAt = 0,
       versionKey = 0 \<rparr>"

text \<open>A customer whose seven terms are all at their largest for schema-valid finite inputs
  (the second scenario of section 8, with the least contract length the schema admits).\<close>

definition maxed :: "nat \<Rightarrow> Customer" where
  "maxed i =
     (baseline i)\<lparr> subscriptionValue := Num 0, supportTickets := Num 10,
        loginFrequency := Num 0, contractLength := Num 1,
        features := (features (baseline i))\<lparr> daysSinceLastLogin := Num 30,
          productUsage := Num 0, supportSatisfaction := Num 1 \<rparr> \<rparr>"

text \<open>A population of three stored customers, the third of them \<open>churned\<close>.\<close>

definition population3 :: db where
  "population3 =
     [baseline 1, (baseline 2)\<lparr>status := at_risk, churnRisk := Num 0.5\<rparr>,
      (maxed 3)\<lparr>status := churned, churnRisk := Num 1\<rparr>]"

text \<open>The body of a create request with the values of the first scenario.\<close>

definition baselineBody :: CustomerBody where
  "baselineBody =
     emptyBody\<lparr> b_name := Some ''A'', b_email := Some ''a@x'', b_company := Some ''X'',
        b_subscriptionValue := Some (Num 10000), b_supportTickets := Some (Num 0),
        b_loginFrequency := Some (Num 30), b_contractLength := Some (Num 36),
        b_features := Some (features (baseline 1)) \<rparr>"

text \<open>The document that the create route stores for that body, and three update bodies:
  one that edits the feature set, one that names \<open>churnRisk\<close> itself, and one whose
  feature set has \<open>-Infinity\<close> (JSON \<open>-1e999\<close>) for the days since the last login and
  for the product usage, two paths without a validator.\<close>

definition storedBaseline :: Customer where
  "storedBaseline = (baseline 1)\<lparr>churnRisk := Num 0.5, status := at_risk\<rparr>"

definition featuresEdit :: CustomerBody where
  "featuresEdit =
     emptyBody\<lparr> b_features :=
       Some ((features (baseline 1))\<lparr>daysSinceLastLogin := Num 30\<rparr>) \<rparr>"

definition riskEdit :: CustomerBody where
  "riskEdit = emptyBody\<lparr> b_churnRisk := Some (Num 0.9) \<rparr>"

definition infiniteFeatures :: FeatureSet where
  "infiniteFeatures =
     (features (baseline 1))\<lparr>daysSinceLastLogin := NInf, productUsage := NInf\<rparr>"

definition infiniteEdit :: CustomerBody where
  "infiniteEdit = emptyBody\<lparr> b_features := Some infiniteFeatures \<rparr>"

text \<open>The stored document after that third update.\<close>

definition storedInfinite :: Customer where
  "storedInfinite = storedBaseline\<lparr>features := infiniteFeatures, updatedAt := 5\<rparr>"

text \<open>Any customer, with the seven inputs of the scorer set to the values of the first
  scenario.\<close>

definition scenario1 :: "Customer \<Rightarrow> Customer" where
  "scenario1 c =
     c\<lparr> supportTickets := Num 0, loginFrequency := Num 30, contractLength := Num 36,
        subscriptionValue := Num 10000,
        features := (features c)\<lparr> daysSinceLastLogin := Num 0,
          supportSatisfaction := Num 10, productUsage := Num 100 \<rparr> \<rparr>"

section \<open>Arithmetic on finite numbers\<close>

lemma minus_Num [simp]: "Num a - Num b = Num (a - b)"
  by (simp add: minus_number_def)

lemma Math_min_Num [simp]: "Math_min (Num a) (Num b) = Num (min a b)"
  by (simp add: Math_min_def min_def)

lemma Math_max_Num [simp]: "Math_max (Num a) (Num b) = Num (max a b)"
  by (simp add: Math_max_def max_def)

lemma less_eq_Num [simp]: "(Num a \<le> Num b) = (a \<le> b)"
  by (auto simp: less_eq_number_def)


lemma clamp_cases:
  "Math_max (Num 0) (Math_min (Num 1) x) = NaN \<or>
   (\<exists>r. Math_max (Num 0) (Math_min (Num 1) x) = Num r \<and> 0 \<le> r \<and> r \<le> 1)"
  by (cases x) (simp_all add: Math_min_def Math_max_def)

section \<open>The scorer and the classifier\<close>

lemma calculateChurnRisk_sum:
  "calculateChurnRisk c =
     Math_max (Num 0) (Math_min (Num 1) (Num 0.5 + term_daysSinceLastLogin c
       + term_supportTickets c + term_loginFrequency c + term_contractLength c
       + term_supportSatisfaction c + term_subscriptionValue c + term_productUsage c))"
  by (simp add: calculateChurnRisk_def Let_def)

lemmas term_defs =
  term_daysSinceLastLogin_def term_supportTickets_def term_loginFrequency_def
  term_contractLength_def term_supportSatisfaction_def term_subscriptionValue_def
  term_productUsage_def weights_def

lemma calculateChurnRisk_range:
  "calculateChurnRisk c = NaN \<or>
   (\<exists>r. calculateChurnRisk c = Num r \<and> 0 \<le> r \<and> r \<le> 1)"
  unfolding calculateChurnRisk_sum by (rule clamp_cases)

lemma calculateChurnRisk_valid:
  "calculateChurnRisk c \<noteq> NaN \<Longrightarrow> validRisk (calculateChurnRisk c)"
  using calculateChurnRisk_range [of c] by (auto simp: validRisk_def)





text \<open>
  C2. For every finite score \<open>r\<close> (in particular every one between 0 and 1), the status is
  \<open>active\<close> exactly when \<open>r < 0.3\<close>, \<open>at_risk\<close> exactly when \<open>0.3 \<le> r < 0.7\<close> and
  \<open>churned\<close> exactly when \<open>0.7 \<le> r\<close>; the risk level of a prediction record is
  \<open>low\<close>, \<open>medium\<close>, \<open>high\<close> under the same cutoffs; so status and level always
  correspond, for every value \<open>x\<close> of the score.
\<close>

theorem status_and_riskLevel_cutoffs:
  "(determineStatus (c\<lparr>churnRisk := Num r\<rparr>) = active \<longleftrightarrow> r < 0.3) \<and>
   (determineStatus (c\<lparr>churnRisk := Num r\<rparr>) = at_risk \<longleftrightarrow> 0.3 \<le> r \<and> r < 0.7) \<and>
   (determineStatus (c\<lparr>churnRisk := Num r\<rparr>) = churned \<longleftrightarrow> 0.7 \<le> r) \<and>
   (riskLevelOf (Num r) = low \<longleftrightarrow> r < 0.3) \<and>
   (riskLevelOf (Num r) = medium \<longleftrightarrow> 0.3 \<le> r \<and> r < 0.7) \<and>
   (riskLevelOf (Num r) = high \<longleftrightarrow> 0.7 \<le> r) \<and>
   (determineStatus (c\<lparr>churnRisk := Num r\<rparr>) = active \<longleftrightarrow> riskLevelOf (Num r) = low) \<and>
   (determineStatus (c\<lparr>churnRisk := Num r\<rparr>) = at_risk \<longleftrightarrow> riskLevelOf (Num r) = medium) \<and>
   (determineStatus (c\<lparr>churnRisk := Num r\<rparr>) = churned \<longleftrightarrow> riskLevelOf (Num r) = high) \<and>
   (determineStatus (c\<lparr>churnRisk := x\<rparr>) = active \<longleftrightarrow> riskLevelOf x = low) \<and>
   (determineStatus (c\<lparr>churnRisk := x\<rparr>) = at_risk \<longleftrightarrow> riskLevelOf x = medium) \<and>
   (determineStatus (c\<lparr>churnRisk := x\<rparr>) = churned \<longleftrightarrow> riskLevelOf x = high)"
  by (simp add: determineStatus_def riskLevelOf_def)

text \<open>The two boundary values: 0.3 is already \<open>at_risk\<close> and \<open>medium\<close>, 0.7 is already
  \<open>churned\<close> and \<open>high\<close>.\<close>

theorem status_and_riskLevel_at_boundaries:
  "determineStatus ((baseline 1)\<lparr>churnRisk := Num 0.3\<rparr>) = at_risk \<and>
   riskLevelOf (Num 0.3) = medium \<and>
   determineStatus ((baseline 1)\<lparr>churnRisk := Num 0.7\<rparr>) = churned \<and>
   riskLevelOf (Num 0.7) = high"
  using status_and_riskLevel_cutoffs [where c = "baseline 1" and r = "0.3"]
        status_and_riskLevel_cutoffs [where c = "baseline 1" and r = "0.7"]
  by simp

text \<open>On the values that the schema's validators admit, five of the other terms stay
  within their bands: four by the minimum with 1, the satisfaction term by the range 1 to
  10 of its input. (The product usage has no validator; its ratio is capped at 1 as well,
  and its term stays in its band when the usage is not negative.)\<close>

lemma validated_terms_within_bands:
  assumes "supportTickets c = Num t" and "0 \<le> t"
    and "loginFrequency c = Num l" and "0 \<le> l"
    and "subscriptionValue c = Num v" and "0 \<le> v"
    and "contractLength c = Num k" and "1 \<le> k"
    and "supportSatisfaction (features c) = Num s" and "1 \<le> s" and "s \<le> 10"
  shows "Num 0 \<le> term_supportTickets c \<and> term_supportTickets c \<le> Num 0.20"
    and "Num 0 \<le> term_loginFrequency c \<and> term_loginFrequency c \<le> Num 0.15"
    and "Num 0 \<le> term_contractLength c \<and> term_contractLength c \<le> Num 0.10"
    and "Num 0 \<le> term_supportSatisfaction c \<and> term_supportSatisfaction c \<le> Num 0.15"
    and "Num 0 \<le> term_subscriptionValue c \<and> term_subscriptionValue c \<le> Num 0.10"
  using assms by (simp_all add: term_defs min_def)

text \<open>
  C3. The claim is that the term for days since last login is \<open>min (d / 30) 1 * 0.25\<close>.
  The code divides by 30 and multiplies by the weight without taking the minimum with 1
  (line 112; lines 115 to 130 take it for five other signals): the term is \<open>d / 120\<close>
  for every finite \<open>d\<close>. At \<open>d = 60\<close> it is 0.5, where the capped term is 0.25; and a
  customer whose other six terms are zero scores 0.875 at \<open>d = 45\<close>, where the capped
  rule gives 0.75.
\<close>

theorem daysSinceLastLogin_term_not_capped:
  "term_daysSinceLastLogin (c\<lparr>features := (features c)\<lparr>daysSinceLastLogin := Num d\<rparr>\<rparr>)
     = Num (d / 120) \<and>
   term_daysSinceLastLogin (c\<lparr>features := (features c)\<lparr>daysSinceLastLogin := Num 60\<rparr>\<rparr>)
     = Num 0.5 \<and>
   Math_min (Num 60 / Num 30) (Num 1) * w_daysSinceLastLogin weights = Num 0.25 \<and>
   calculateChurnRisk
     ((scenario1 c)\<lparr>features := (features (scenario1 c))\<lparr>daysSinceLastLogin := Num 45\<rparr>\<rparr>)
     = Num 0.875"
  by (simp add: scenario1_def calculateChurnRisk_sum term_defs)

text \<open>
  C6. The claim gives the customer of the first scenario the score 0.5 and the status
  \<open>active\<close>. The score is 0.5; the status that the hook derives from it is not
  \<open>active\<close>, since 0.5 is not below 0.3.
\<close>

theorem baseline_status_not_active:
  "calculateChurnRisk (baseline 1) = Num 0.5 \<and>
   status (pre_save False True (baseline 1)) \<noteq> active"
  by (simp add: baseline_def pre_save_def setChurnRisk_def determineStatus_def
      calculateChurnRisk_sum term_defs Let_def)

text \<open>
  C6, amended. A customer with daysSinceLastLogin 0, supportTickets 0, loginFrequency 30,
  contractLength 36, supportSatisfaction 10, subscriptionValue 10000 and productUsage 100
  has the score exactly 0.5, each of the seven terms being zero, and the status
  \<open>at_risk\<close>.
\<close>

theorem scenario_risk_half_status_at_risk:
  "calculateChurnRisk (scenario1 c) = Num 0.5 \<and>
   term_daysSinceLastLogin (scenario1 c) = Num 0 \<and> term_supportTickets (scenario1 c) = Num 0 \<and>
   term_loginFrequency (scenario1 c) = Num 0 \<and> term_contractLength (scenario1 c) = Num 0 \<and>
   term_supportSatisfaction (scenario1 c) = Num 0 \<and>
   term_subscriptionValue (scenario1 c) = Num 0 \<and>
   term_productUsage (scenario1 c) = Num 0 \<and>
   determineStatus ((scenario1 c)\<lparr>churnRisk := calculateChurnRisk (scenario1 c)\<rparr>) = at_risk \<and>
   status (pre_save fm True (scenario1 c)) = at_risk"
  by (simp add: scenario1_def pre_save_def setChurnRisk_def determineStatus_def
      calculateChurnRisk_sum term_defs Let_def)

section \<open>The factor rules\<close>

text \<open>
  C9. \<open>explainFactors\<close> is a total function; it returns the strings of the rules that
  fire, in the order of the rule table; the empty list exactly when no rule fires; and
  all four strings, in that order, on daysSinceLastLogin 20, supportTickets 6,
  supportSatisfaction 5, loginFrequency 3.
\<close>

theorem explainFactors_rules:
  "explainFactors c = map snd (filter (\<lambda>r. fst r c) spec_factor_rules) \<and>
   (explainFactors c = [] \<longleftrightarrow>
      \<not> daysSinceLastLogin (features c) > Num 14 \<and> \<not> supportTickets c > Num 5 \<and>
      \<not> supportSatisfaction (features c) < Num 6 \<and> \<not> loginFrequency c < Num 5) \<and>
   explainFactors (c\<lparr> supportTickets := Num 6, loginFrequency := Num 3,
       features := (features c)\<lparr> daysSinceLastLogin := Num 20,
         supportSatisfaction := Num 5 \<rparr> \<rparr>)
     = [''Inactive user'', ''High support volume'', ''Low satisfaction'', ''Low engagement'']"
  by (simp add: explainFactors_def spec_factor_rules_def Let_def)

section \<open>The predict route\<close>

lemma findById_cid: "findById d i = Some c \<Longrightarrow> cid c = i"
  by (induction d) (auto simp: findById_def split: if_splits)

lemma findById_replaceDoc_same:
  "findById d (cid c) = Some c0 \<Longrightarrow> findById (replaceDoc d c) (cid c) = Some c"
  by (induction d) (auto simp: findById_def replaceDoc_def split: if_splits)

lemma findById_replaceDoc_other:
  "j \<noteq> cid c \<Longrightarrow> findById (replaceDoc d c) j = findById d j"
  by (induction d) (auto simp: findById_def replaceDoc_def)

lemma length_replaceDoc: "length (replaceDoc d c) = length d"
  by (simp add: replaceDoc_def)

lemma calculateChurnRisk_cong:
  "features c' = features c \<Longrightarrow> supportTickets c' = supportTickets c \<Longrightarrow>
   loginFrequency c' = loginFrequency c \<Longrightarrow> contractLength c' = contractLength c \<Longrightarrow>
   subscriptionValue c' = subscriptionValue c \<Longrightarrow>
   calculateChurnRisk c' = calculateChurnRisk c"
  by (simp add: calculateChurnRisk_sum term_defs)

lemma explainFactors_cong:
  "features c' = features c \<Longrightarrow> supportTickets c' = supportTickets c \<Longrightarrow>
   loginFrequency c' = loginFrequency c \<Longrightarrow> explainFactors c' = explainFactors c"
  by (simp add: explainFactors_def)

lemma validRisk_NaN: "\<not> validRisk NaN"
  by (simp add: validRisk_def less_eq_number_def)

lemma predict_NaN:
  assumes "findById d i = Some c" and "calculateChurnRisk c = NaN"
  shows "predict d i now t = Inl ServerError"
  using assms
  by (simp add: predict_def Let_def saveLoaded_def validPrediction_def validRisk_NaN)

lemma predict_Some:
  assumes "findById d i = Some c" and "calculateChurnRisk c \<noteq> NaN"
  shows "predict d i now t =
    Inr (\<lparr> r_prediction = \<lparr> date = now, churnProbability = calculateChurnRisk c,
              riskLevel = riskLevelOf (calculateChurnRisk c), factors = explainFactors c,
              modelVersion = ''1.0'' \<rparr>,
            r_id = i, r_churnRisk = calculateChurnRisk c,
            r_status = determineStatus (c\<lparr>churnRisk := calculateChurnRisk c\<rparr>) \<rparr>,
         replaceDoc d (c\<lparr> predictions := predictions c @
                 [\<lparr> date = now, churnProbability = calculateChurnRisk c,
                    riskLevel = riskLevelOf (calculateChurnRisk c),
                    factors = explainFactors c, modelVersion = ''1.0'' \<rparr>],
              churnRisk := calculateChurnRisk c,
              status := determineStatus (c\<lparr>churnRisk := calculateChurnRisk c\<rparr>),
              updatedAt := t, versionKey := versionKey c + 1 \<rparr>))"
proof -
  have b: "validRisk (calculateChurnRisk c)"
    by (rule calculateChurnRisk_valid [OF assms(2)])
  have s: "determineStatus (c\<lparr>predictions := ps, churnRisk := r\<rparr>) = determineStatus (c\<lparr>churnRisk := r\<rparr>)" for ps r
    by (simp add: determineStatus_def)
  show ?thesis
    using assms b findById_cid [OF assms(1)]
    by (simp add: predict_def Let_def saveLoaded_def validPrediction_def pre_save_def
        setChurnRisk_def s)
qed

text \<open>The customer with the two infinite features is what the update route stores, and
  its score is \<open>NaN\<close>.\<close>

lemma update_stores_infinite:
  "updateCustomer [storedBaseline] 1 5 infiniteEdit = Inr (storedInfinite, [storedInfinite])"
proof -
  have f: "findById [storedBaseline] 1 = Some storedBaseline"
    by (simp add: findById_def storedBaseline_def baseline_def)
  have i: "cid storedBaseline = 1"
    by (simp add: storedBaseline_def baseline_def)
  show ?thesis
    by (simp add: updateCustomer_def f [unfolded One_nat_def] i [unfolded One_nat_def]
        Let_def validBody_def validFeatures_def castable_def infiniteEdit_def
        infiniteFeatures_def emptyBody_def holds_def applyBody_def orDefault_def
        replaceDoc_def storedInfinite_def baseline_def)
qed

lemma storedInfinite_score: "calculateChurnRisk storedInfinite = NaN"
  by (simp add: storedInfinite_def storedBaseline_def infiniteFeatures_def baseline_def
      calculateChurnRisk_sum term_defs Math_min_def Math_max_def minus_number_def)

text \<open>
  C5. The claim is that for every customer each call of the predict route returns the score
  and appends one record. An update whose feature set has \<open>-Infinity\<close> twice passes the
  validators and is stored; the score of that customer is \<open>NaN\<close>, the save of the predict
  route fails its validation, and the route answers with a server error: no score is
  returned and no record is appended.
\<close>

theorem predict_fails_on_NaN_score:
  "updateCustomer [storedBaseline] 1 5 infiniteEdit = Inr (storedInfinite, [storedInfinite]) \<and>
   predict [storedInfinite] 1 10 11 = Inl ServerError"
proof -
  have f: "findById [storedInfinite] 1 = Some storedInfinite"
    by (simp add: findById_def storedInfinite_def storedBaseline_def baseline_def)
  from update_stores_infinite predict_NaN [OF f storedInfinite_score] show ?thesis by simp
qed

text \<open>
  C5, amended. For a stored customer whose score is a number (as it is whenever the seven
  inputs are finite, \<open>calculateChurnRisk_finite\<close>), two calls of the predict route in a
  row, with nothing else written in between, both succeed and report the same score; the
  second record is the first one with its own date; each call appends exactly one record
  to the history.
\<close>

theorem predict_twice_same_score:
  assumes "findById d i = Some c" and "calculateChurnRisk c \<noteq> NaN"
  shows "\<exists>r1 d1 c1 r2 d2 c2.
     predict d i t1 s1 = Inr (r1, d1) \<and> findById d1 i = Some c1 \<and>
     predict d1 i t2 s2 = Inr (r2, d2) \<and> findById d2 i = Some c2 \<and>
     churnProbability (r_prediction r2) = churnProbability (r_prediction r1) \<and>
     r_churnRisk r2 = r_churnRisk r1 \<and> churnRisk c2 = churnRisk c1 \<and>
     r_prediction r2 = (r_prediction r1)\<lparr>date := t2\<rparr> \<and>
     predictions c1 = predictions c @ [r_prediction r1] \<and>
     predictions c2 = predictions c1 @ [r_prediction r2] \<and>
     length (predictions c1) = length (predictions c) + 1 \<and>
     length (predictions c2) = length (predictions c1) + 1"
proof -
  let ?p1 = "\<lparr> date = t1, churnProbability = calculateChurnRisk c,
              riskLevel = riskLevelOf (calculateChurnRisk c), factors = explainFactors c,
              modelVersion = ''1.0'' \<rparr>"
  let ?c1 = "c\<lparr> predictions := predictions c @ [?p1],
              churnRisk := calculateChurnRisk c,
              status := determineStatus (c\<lparr>churnRisk := calculateChurnRisk c\<rparr>),
              updatedAt := s1, versionKey := versionKey c + 1 \<rparr>"
  let ?d1 = "replaceDoc d ?c1"
  have i: "cid c = i" by (rule findById_cid [OF assms(1)])
  have f1: "findById ?d1 i = Some ?c1"
    using findById_replaceDoc_same [of d ?c1 c] assms(1) i by simp
  have r: "calculateChurnRisk ?c1 = calculateChurnRisk c"
    by (rule calculateChurnRisk_cong) simp_all
  have n1: "calculateChurnRisk ?c1 \<noteq> NaN"
    unfolding r by (rule assms(2))
  have e: "explainFactors ?c1 = explainFactors c"
    by (rule explainFactors_cong) simp_all
  let ?p2 = "\<lparr> date = t2, churnProbability = calculateChurnRisk ?c1,
              riskLevel = riskLevelOf (calculateChurnRisk ?c1), factors = explainFactors ?c1,
              modelVersion = ''1.0'' \<rparr>"
  let ?c2 = "?c1\<lparr> predictions := predictions ?c1 @ [?p2],
              churnRisk := calculateChurnRisk ?c1,
              status := determineStatus (?c1\<lparr>churnRisk := calculateChurnRisk ?c1\<rparr>),
              updatedAt := s2, versionKey := versionKey ?c1 + 1 \<rparr>"
  have f2: "findById (replaceDoc ?d1 ?c2) i = Some ?c2"
    using findById_replaceDoc_same [of ?d1 ?c2 ?c1] f1 i by simp
  show ?thesis
    apply (intro exI conjI)
               apply (rule predict_Some [OF assms])
              apply (rule f1)
             apply (rule predict_Some [OF f1 n1])
            apply (rule f2)
    by (simp_all add: r [simplified] e [simplified])
qed

lemma baseline_score: "calculateChurnRisk (baseline i) = Num 0.5"
  by (simp add: baseline_def calculateChurnRisk_sum term_defs)

theorem predict_twice_same_score_witness:
  "findById [baseline 1] 1 = Some (baseline 1) \<and> calculateChurnRisk (baseline 1) \<noteq> NaN \<and>
   (\<exists>r1 d1 c1 r2 d2 c2.
     predict [baseline 1] 1 10 11 = Inr (r1, d1) \<and> findById d1 1 = Some c1 \<and>
     predict d1 1 20 21 = Inr (r2, d2) \<and> findById d2 1 = Some c2 \<and>
     churnProbability (r_prediction r2) = churnProbability (r_prediction r1) \<and>
     length (predictions c1) = 1 \<and> length (predictions c2) = 2)"
proof -
  have h: "findById [baseline 1] 1 = Some (baseline 1)"
    by (simp add: findById_def baseline_def)
  have s: "calculateChurnRisk (baseline 1) \<noteq> NaN"
    by (simp add: baseline_score)
  have n: "predictions (baseline 1) = []"
    by (simp add: baseline_def)
  from predict_twice_same_score [OF h s, of 10 11 20 21] obtain r1 d1 c1 r2 d2 c2 where
    "predict [baseline 1] 1 10 11 = Inr (r1, d1)" "findById d1 1 = Some c1"
    "predict d1 1 20 21 = Inr (r2, d2)" "findById d2 1 = Some c2"
    "churnProbability (r_prediction r2) = churnProbability (r_prediction r1)"
    "predictions c1 = predictions (baseline 1) @ [r_prediction r1]"
    "predictions c2 = predictions c1 @ [r_prediction r2]"
    by blast
  with h s n show ?thesis by auto
qed

text \<open>
  C10. The claim is that the predict route modifies only the risk, the status and the
  history. The save of the route also stamps \<open>updatedAt\<close> and increments the version
  key: for a stored customer with both at 0, they are 11 (the time of the save) and 1
  afterwards.
\<close>

theorem predict_changes_updatedAt:
  "\<not> isl (predict [baseline 1] 1 10 11) \<and>
   map updatedAt (snd (projr (predict [baseline 1] 1 10 11))) = [11] \<and>
   map versionKey (snd (projr (predict [baseline 1] 1 10 11))) = [1] \<and>
   updatedAt (baseline 1) = 0 \<and> versionKey (baseline 1) = 0"
proof -
  have h: "findById [baseline 1] 1 = Some (baseline 1)"
    by (simp add: findById_def baseline_def)
  have s: "calculateChurnRisk (baseline 1) \<noteq> NaN"
    by (simp add: baseline_score)
  have i: "cid (baseline 1) = 1" "updatedAt (baseline 1) = 0" "versionKey (baseline 1) = 0"
    by (simp_all add: baseline_def)
  show ?thesis
    unfolding predict_Some [OF h s] using i by (simp add: replaceDoc_def)
qed

text \<open>
  C10, amended. When the score of a stored customer is \<open>NaN\<close> the predict route fails and
  writes nothing. Otherwise it succeeds, and the stored document afterwards is the old one
  with \<open>churnRisk\<close>, \<open>status\<close>, \<open>predictions\<close> (one record appended) and the two
  fields that every such save maintains, \<open>updatedAt\<close> and the version key, replaced:
  name, email, company, subscription value, contract length, support tickets, login
  frequency, last activity, the feature set, the interaction log and the creation time
  are as they were, and the records that were in the history stay, in their places,
  before the one appended. No other document of the collection changes.
\<close>

theorem predict_frame:
  assumes "findById d i = Some c"
  shows "(calculateChurnRisk c = NaN \<longrightarrow> predict d i now savedAt = Inl ServerError) \<and>
    (calculateChurnRisk c \<noteq> NaN \<longrightarrow>
      (\<exists>r d' c'.
        predict d i now savedAt = Inr (r, d') \<and> findById d' i = Some c' \<and>
        c' = c\<lparr> churnRisk := r_churnRisk r, status := r_status r,
                predictions := predictions c @ [r_prediction r],
                updatedAt := savedAt, versionKey := versionKey c + 1 \<rparr> \<and>
        cid c' = cid c \<and> name c' = name c \<and> email c' = email c \<and> company c' = company c \<and>
        subscriptionValue c' = subscriptionValue c \<and> contractLength c' = contractLength c \<and>
        supportTickets c' = supportTickets c \<and> loginFrequency c' = loginFrequency c \<and>
        lastActivity c' = lastActivity c \<and> features c' = features c \<and>
        interactions c' = interactions c \<and> createdAt c' = createdAt c \<and>
        take (length (predictions c)) (predictions c') = predictions c \<and>
        length d' = length d \<and>
        (\<forall>j. j \<noteq> i \<longrightarrow> findById d' j = findById d j)))"
proof (intro conjI impI)
  assume "calculateChurnRisk c = NaN"
  then show "predict d i now savedAt = Inl ServerError"
    by (rule predict_NaN [OF assms])
next
  assume n: "calculateChurnRisk c \<noteq> NaN"
  let ?p1 = "\<lparr> date = now, churnProbability = calculateChurnRisk c,
              riskLevel = riskLevelOf (calculateChurnRisk c), factors = explainFactors c,
              modelVersion = ''1.0'' \<rparr>"
  let ?c1 = "c\<lparr> predictions := predictions c @ [?p1],
              churnRisk := calculateChurnRisk c,
              status := determineStatus (c\<lparr>churnRisk := calculateChurnRisk c\<rparr>),
              updatedAt := savedAt, versionKey := versionKey c + 1 \<rparr>"
  have i: "cid c = i" by (rule findById_cid [OF assms])
  have f1: "findById (replaceDoc d ?c1) i = Some ?c1"
    using findById_replaceDoc_same [of d ?c1 c] assms i by simp
  have o: "\<forall>j. j \<noteq> i \<longrightarrow> findById (replaceDoc d ?c1) j = findById d j"
    using findById_replaceDoc_other [of _ ?c1 d] i by simp
  show "\<exists>r d' c'.
        predict d i now savedAt = Inr (r, d') \<and> findById d' i = Some c' \<and>
        c' = c\<lparr> churnRisk := r_churnRisk r, status := r_status r,
                predictions := predictions c @ [r_prediction r],
                updatedAt := savedAt, versionKey := versionKey c + 1 \<rparr> \<and>
        cid c' = cid c \<and> name c' = name c \<and> email c' = email c \<and> company c' = company c \<and>
        subscriptionValue c' = subscriptionValue c \<and> contractLength c' = contractLength c \<and>
        supportTickets c' = supportTickets c \<and> loginFrequency c' = loginFrequency c \<and>
        lastActivity c' = lastActivity c \<and> features c' = features c \<and>
        interactions c' = interactions c \<and> createdAt c' = createdAt c \<and>
        take (length (predictions c)) (predictions c') = predictions c \<and>
        length d' = length d \<and>
        (\<forall>j. j \<noteq> i \<longrightarrow> findById d' j = findById d j)"
    apply (intro exI conjI)
                     apply (rule predict_Some [OF assms n])
                    apply (rule f1)
    using o by (simp_all add: length_replaceDoc)
qed

theorem predict_frame_witness:
  "findById [baseline 1] 1 = Some (baseline 1) \<and> calculateChurnRisk (baseline 1) \<noteq> NaN \<and>
   (\<exists>r d' c'.
     predict [baseline 1] 1 10 11 = Inr (r, d') \<and> findById d' 1 = Some c' \<and>
     c' = (baseline 1)\<lparr> churnRisk := r_churnRisk r, status := r_status r,
                predictions := [r_prediction r], updatedAt := 11, versionKey := 1 \<rparr>)"
proof -
  have h: "findById [baseline 1] 1 = Some (baseline 1)"
    by (simp add: findById_def baseline_def)
  have s: "calculateChurnRisk (baseline 1) \<noteq> NaN"
    by (simp add: baseline_score)
  have n: "predictions (baseline 1) = []" "versionKey (baseline 1) = 0"
    by (simp_all add: baseline_def)
  from predict_frame [OF h, of 10 11] s obtain r d' c' where
    "predict [baseline 1] 1 10 11 = Inr (r, d')" "findById d' 1 = Some c'"
    "c' = (baseline 1)\<lparr> churnRisk := r_churnRisk r, status := r_status r,
                predictions := predictions (baseline 1) @ [r_prediction r],
                updatedAt := 11, versionKey := versionKey (baseline 1) + 1 \<rparr>"
    by blast
  with h s n show ?thesis by auto
qed

section \<open>The bulk route\<close>

lemma bulkStep_cid: "cid (fst (bulkStep now c)) = cid c"
  by (simp add: bulkStep_def Let_def setChurnRisk_def)

lemma saveLoaded_bulkStep:
  "saveLoaded d (fst (bulkStep now c)) (snd (bulkStep now c)) t =
     (if calculateChurnRisk c = NaN then Inl ValidationError
      else Inr (replaceDoc d ((fst (bulkStep now c))
                  \<lparr>updatedAt := t, versionKey := versionKey c + 1\<rparr>)))"
proof (cases "calculateChurnRisk c = NaN")
  case True
  then show ?thesis
    by (simp add: saveLoaded_def bulkStep_def Let_def validPrediction_def validRisk_NaN)
next
  case False
  from calculateChurnRisk_valid [OF False] False show ?thesis
    by (simp add: saveLoaded_def bulkStep_def Let_def validPrediction_def pre_save_def
        setChurnRisk_def)
qed

lemma saveAll_bulkStep:
  "saveAll d t (map (bulkStep now) cs) =
     (list_all (\<lambda>c. calculateChurnRisk c \<noteq> NaN) cs,
      foldl (\<lambda>d c. if calculateChurnRisk c \<noteq> NaN
                    then replaceDoc d ((fst (bulkStep now c))
                           \<lparr>updatedAt := t, versionKey := versionKey c + 1\<rparr>)
                    else d) d cs)"
proof (induction cs arbitrary: d)
  case Nil
  show ?case by simp
next
  case (Cons c cs)
  have e: "saveAll d t (map (bulkStep now) (c # cs)) =
        saveAll d t ((fst (bulkStep now c), snd (bulkStep now c)) # map (bulkStep now) cs)"
    by simp
  show ?case
  proof (cases "calculateChurnRisk c = NaN")
    case True
    then show ?thesis
      unfolding e by (simp only: saveAll.simps saveLoaded_bulkStep) (simp add: Cons.IH)
  next
    case False
    then show ?thesis
      unfolding e by (simp only: saveAll.simps saveLoaded_bulkStep) (simp add: Cons.IH)
  qed
qed

lemma foldl_replaceDoc:
  assumes "distinct (map cid cs)" and "\<And>c. cid (u c) = cid c"
  shows "foldl (\<lambda>d c. if P c then replaceDoc d (u c) else d) d cs =
         map (\<lambda>x. case find (\<lambda>c. cid c = cid x) cs of
                     None \<Rightarrow> x
                   | Some c \<Rightarrow> if P c then u c else x) d"
  using assms(1)
proof (induction cs arbitrary: d)
  case Nil
  show ?case by simp
next
  case (Cons c cs)
  have none: "find (\<lambda>y. cid y = cid c) cs = None"
    using Cons.prems by (force simp: find_None_iff image_iff)
  let ?g = "\<lambda>x. case find (\<lambda>c. cid c = cid x) cs of
                     None \<Rightarrow> x
                   | Some c \<Rightarrow> if P c then u c else x"
  have ih: "foldl (\<lambda>d c. if P c then replaceDoc d (u c) else d) d' cs = map ?g d'" for d'
    using Cons.IH Cons.prems by simp
  show ?case
  proof (cases "P c")
    case True
    then have "foldl (\<lambda>d c. if P c then replaceDoc d (u c) else d) d (c # cs) =
          map ?g (replaceDoc d (u c))"
      by (simp add: ih)
    also have "\<dots> = map (\<lambda>x. case find (\<lambda>c. cid c = cid x) (c # cs) of
                     None \<Rightarrow> x
                   | Some c \<Rightarrow> if P c then u c else x) d"
      using True by (simp add: replaceDoc_def assms(2) none)
    finally show ?thesis .
  next
    case False
    then have "foldl (\<lambda>d c. if P c then replaceDoc d (u c) else d) d (c # cs) = map ?g d"
      by (simp add: ih)
    also have "\<dots> = map (\<lambda>x. case find (\<lambda>c. cid c = cid x) (c # cs) of
                     None \<Rightarrow> x
                   | Some c \<Rightarrow> if P c then u c else x) d"
      using False none by auto
    finally show ?thesis .
  qed
qed

lemma find_filter_distinct:
  assumes "distinct (map cid d)" and "x \<in> set d"
  shows "find (\<lambda>c. cid c = cid x) (filter P d) = (if P x then Some x else None)"
  using assms
proof (induction d)
  case Nil
  then show ?case by simp
next
  case (Cons a d)
  show ?case
  proof (cases "x = a")
    case True
    have "find (\<lambda>c. cid c = cid a) (filter P d) = None"
      using Cons.prems(1) by (force simp: find_None_iff image_iff)
    with True show ?thesis by simp
  next
    case False
    with Cons.prems have "x \<in> set d" "cid a \<noteq> cid x" by auto
    with Cons show ?thesis by simp
  qed
qed

text \<open>
  C8. The claim is that the bulk route persists a result for each selected customer and
  returns their number. On the collection that holds the customer with the two infinite
  features, whose status is not \<open>churned\<close>, the one save is rejected: the route answers
  with a server error instead of a count, and nothing is persisted.
\<close>

theorem bulkPredict_fails_on_NaN_score:
  "updateCustomer [storedBaseline] 1 5 infiniteEdit = Inr (storedInfinite, [storedInfinite]) \<and>
   status storedInfinite \<noteq> churned \<and>
   bulkPredict [storedInfinite] 10 11 = (Inl ServerError, [storedInfinite])"
proof -
  have s: "status storedInfinite \<noteq> churned"
    by (simp add: storedInfinite_def storedBaseline_def)
  have "bulkPredict [storedInfinite] 10 11 = (Inl ServerError, [storedInfinite])"
    using s storedInfinite_score
    by (simp add: bulkPredict_def Let_def
        saveAll_bulkStep [of _ _ _ "[storedInfinite]", simplified])
  with s update_stores_infinite show ?thesis by simp
qed

text \<open>
  C8, amended. On a collection with distinct ids, the bulk route selects exactly the
  customers whose status is not \<open>churned\<close>. It rewrites each selected customer whose score
  is a number: \<open>churnRisk\<close> recomputed, \<open>status\<close> derived from it, one record with an
  empty factor list appended (and \<open>updatedAt\<close> and the version key as every such save
  leaves them); every other customer is left as it was. When the score of every selected
  customer is a number, the route returns the number of selected customers as its count;
  otherwise it answers with a server error. On three customers of which one is
  \<open>churned\<close> and the two others have a number as their score, the count is 2.
\<close>

theorem bulkPredict_processes_non_churned:
  assumes "distinct (map cid d)"
  shows "bulkPredict d now savedAt =
     (if list_all (\<lambda>c. calculateChurnRisk c \<noteq> NaN) (filter (\<lambda>c. status c \<noteq> churned) d)
      then Inr (length (filter (\<lambda>c. status c \<noteq> churned) d))
      else Inl ServerError,
      map (\<lambda>c. if status c \<noteq> churned \<and> calculateChurnRisk c \<noteq> NaN
               then c\<lparr> churnRisk := calculateChurnRisk c,
                      status := determineStatus (c\<lparr>churnRisk := calculateChurnRisk c\<rparr>),
                      predictions := predictions c @
                        [\<lparr> date = now, churnProbability = calculateChurnRisk c,
                           riskLevel = riskLevelOf (calculateChurnRisk c),
                           factors = [], modelVersion = ''1.0'' \<rparr>],
                      updatedAt := savedAt, versionKey := versionKey c + 1 \<rparr>
               else c) d) \<and>
   (length d = 3 \<and> length (filter (\<lambda>c. status c = churned) d) = 1 \<and>
    list_all (\<lambda>c. calculateChurnRisk c \<noteq> NaN) (filter (\<lambda>c. status c \<noteq> churned) d) \<longrightarrow>
      fst (bulkPredict d now savedAt) = Inr 2)"
proof -
  let ?u = "\<lambda>c. (fst (bulkStep now c))\<lparr>updatedAt := savedAt, versionKey := versionKey c + 1\<rparr>"
  let ?P = "\<lambda>c. calculateChurnRisk c \<noteq> NaN"
  let ?sel = "filter (\<lambda>c. status c \<noteq> churned) d"
  have dsel: "distinct (map cid ?sel)"
    using assms by (simp add: distinct_map_filter)
  have cu: "cid (?u c) = cid c" for c
    by (simp add: bulkStep_cid)
  have "saveAll d savedAt (map (bulkStep now) ?sel) =
        (list_all ?P ?sel,
         map (\<lambda>x. case find (\<lambda>c. cid c = cid x) ?sel of
                     None \<Rightarrow> x
                   | Some c \<Rightarrow> if ?P c then ?u c else x) d)"
    unfolding saveAll_bulkStep
    using foldl_replaceDoc [OF dsel, of ?u ?P d] cu by simp
  also have "map (\<lambda>x. case find (\<lambda>c. cid c = cid x) ?sel of
                     None \<Rightarrow> x
                   | Some c \<Rightarrow> if ?P c then ?u c else x) d =
             map (\<lambda>c. if status c \<noteq> churned \<and> ?P c then ?u c else c) d"
    by (rule map_cong) (simp_all add: find_filter_distinct [OF assms])
  finally have sa: "saveAll d savedAt (map (bulkStep now) ?sel) =
      (list_all ?P ?sel, map (\<lambda>c. if status c \<noteq> churned \<and> ?P c then ?u c else c) d)" .
  have u: "?P c \<Longrightarrow> ?u c = c\<lparr> churnRisk := calculateChurnRisk c,
                      status := determineStatus (c\<lparr>churnRisk := calculateChurnRisk c\<rparr>),
                      predictions := predictions c @
                        [\<lparr> date = now, churnProbability = calculateChurnRisk c,
                           riskLevel = riskLevelOf (calculateChurnRisk c),
                           factors = [], modelVersion = ''1.0'' \<rparr>],
                      updatedAt := savedAt, versionKey := versionKey c + 1 \<rparr>" for c
    by (simp add: bulkStep_def Let_def setChurnRisk_def)
  have main: "bulkPredict d now savedAt =
     (if list_all ?P ?sel then Inr (length ?sel) else Inl ServerError,
      map (\<lambda>c. if status c \<noteq> churned \<and> ?P c then ?u c else c) d)"
    unfolding bulkPredict_def Let_def sa by simp
  have m2: "map (\<lambda>c. if status c \<noteq> churned \<and> ?P c then ?u c else c) d =
      map (\<lambda>c. if status c \<noteq> churned \<and> calculateChurnRisk c \<noteq> NaN
               then c\<lparr> churnRisk := calculateChurnRisk c,
                      status := determineStatus (c\<lparr>churnRisk := calculateChurnRisk c\<rparr>),
                      predictions := predictions c @
                        [\<lparr> date = now, churnProbability = calculateChurnRisk c,
                           riskLevel = riskLevelOf (calculateChurnRisk c),
                           factors = [], modelVersion = ''1.0'' \<rparr>],
                      updatedAt := savedAt, versionKey := versionKey c + 1 \<rparr>
               else c) d"
    by (rule map_cong) (auto simp: u [simplified])
  have "length (filter (\<lambda>c. status c = churned) d) + length ?sel = length d"
    using sum_length_filter_compl [of "\<lambda>c. status c = churned" d] by simp
  then have count: "length d = 3 \<and> length (filter (\<lambda>c. status c = churned) d) = 1 \<longrightarrow>
      length ?sel = 2"
    by arith
  show ?thesis
    unfolding main m2 using count by simp
qed

theorem bulkPredict_population3:
  "distinct (map cid population3) \<and>
   fst (bulkPredict population3 10 11) = Inr 2 \<and>
   map status (snd (bulkPredict population3 10 11)) = [at_risk, at_risk, churned] \<and>
   map churnRisk (snd (bulkPredict population3 10 11)) = [Num 0.5, Num 0.5, Num 1] \<and>
   map (\<lambda>c. map factors (predictions c)) (snd (bulkPredict population3 10 11))
     = [[[]], [[]], []]"
proof -
  have h: "distinct (map cid population3)"
    by (simp add: population3_def baseline_def maxed_def)
  have r2: "calculateChurnRisk ((baseline i)\<lparr>status := s, churnRisk := x\<rparr>) = Num 0.5" for i s x
    by (simp add: baseline_def calculateChurnRisk_sum term_defs)
  have p: "predictions (baseline i) = []" "status (baseline i) = active" for i
    by (simp_all add: baseline_def)
  show ?thesis
    using h bulkPredict_processes_non_churned [OF h, of 10 11]
    by (simp add: population3_def baseline_score r2 p determineStatus_def maxed_def)
qed

section \<open>The risk histogram\<close>

lemma bucketOf_boundaries:
  "bucketOf boundaries x =
     (if Num 0 \<le> x \<and> x < Num 0.3 then Lower (Num 0)
      else if Num 0.3 \<le> x \<and> x < Num 0.7 then Lower (Num 0.3)
      else if Num 0.7 \<le> x \<and> x < Num 1 then Lower (Num 0.7)
      else Other)"
  by (simp add: boundaries_def)

lemma four_way_count:
  assumes "\<And>c. f c = k1 \<or> f c = k2 \<or> f c = k3 \<or> f c = k4"
    and "distinct [k1, k2, k3, k4]"
  shows "length (filter (\<lambda>c. f c = k1) d) + length (filter (\<lambda>c. f c = k2) d)
       + length (filter (\<lambda>c. f c = k3) d) + length (filter (\<lambda>c. f c = k4) d) = length d"
proof (induction d)
  case Nil
  show ?case by simp
next
  case (Cons a d)
  from assms(1) [of a] assms(2) Cons show ?case by auto
qed

lemma sum_list_drop_zero:
  "sum_list (map f (filter (\<lambda>b. f b > 0) xs)) = sum_list (map f xs)" for f :: "'a \<Rightarrow> nat"
  by (induction xs) auto

lemma riskDistribution_counts_sum:
  "sum_list (map bk_count (riskDistribution d)) = totalCustomers d"
proof -
  have ids: "map Lower (butlast boundaries) @ [Other] =
      [Lower (Num 0), Lower (Num 0.3), Lower (Num 0.7), Other]"
    by (simp add: boundaries_def)
  have cover: "bucketOf boundaries x = Lower (Num 0) \<or> bucketOf boundaries x = Lower (Num 0.3) \<or>
               bucketOf boundaries x = Lower (Num 0.7) \<or> bucketOf boundaries x = Other" for x
    by (simp add: bucketOf_boundaries)
  have "sum_list (map bk_count (riskDistribution d)) =
        sum_list (map bk_count (map (bucketFor d)
          [Lower (Num 0), Lower (Num 0.3), Lower (Num 0.7), Other]))"
    unfolding riskDistribution_def ids by (rule sum_list_drop_zero)
  also have "\<dots> = length d"
    using four_way_count [of "\<lambda>c. bucketOf boundaries (churnRisk c)"
        "Lower (Num 0)" "Lower (Num 0.3)" "Lower (Num 0.7)" Other d] cover
    by (simp add: bucketFor_def Let_def)
  finally show ?thesis by (simp add: totalCustomers_def)
qed

lemma predict_stored:
  assumes "findById d i = Some c" and "calculateChurnRisk c \<noteq> NaN"
  shows "\<exists>r c'. predict d i now t = Inr (r, replaceDoc d c') \<and> cid c' = i \<and>
           name c' = name c \<and> email c' = email c \<and>
           churnRisk c' = calculateChurnRisk c \<and>
           calculateChurnRisk c' = calculateChurnRisk c \<and>
           status c' = determineStatus c'"
proof -
  let ?p = "\<lparr> date = now, churnProbability = calculateChurnRisk c,
              riskLevel = riskLevelOf (calculateChurnRisk c), factors = explainFactors c,
              modelVersion = ''1.0'' \<rparr>"
  let ?c' = "c\<lparr> predictions := predictions c @ [?p],
              churnRisk := calculateChurnRisk c,
              status := determineStatus (c\<lparr>churnRisk := calculateChurnRisk c\<rparr>),
              updatedAt := t, versionKey := versionKey c + 1 \<rparr>"
  have 1: "\<exists>r. predict d i now t = Inr (r, replaceDoc d ?c')"
    using predict_Some [OF assms, of now t] by blast
  have 2: "cid ?c' = i"
    using findById_cid [OF assms(1)] by simp
  have 3: "calculateChurnRisk ?c' = calculateChurnRisk c"
    by (rule calculateChurnRisk_cong) simp_all
  have 4: "status ?c' = determineStatus ?c'"
    by (simp add: determineStatus_def)
  have 5: "name ?c' = name c \<and> email ?c' = email c \<and> churnRisk ?c' = calculateChurnRisk c"
    by simp
  from 1 2 3 4 5 show ?thesis by blast
qed

text \<open>
  C7. The claim puts a score of exactly 1.0 in the bucket from 0.7 to 1.0. The last
  boundary of \<open>$bucket\<close> is exclusive, so the stage sends it to the \<open>default\<close> bucket:
  a customer whose terms are all at their largest is scored 1 by the clamp, and after the
  predict route has stored that score the histogram consists of the bucket \<open>other\<close>
  alone. (That the counts of all buckets add up to the number of customers is
  \<open>riskDistribution_counts_sum\<close>.)
\<close>

theorem score_one_in_overflow_bucket:
  "calculateChurnRisk (maxed 1) = Num 1 \<and>
   bucketOf boundaries (Num 1) = Other \<and>
   (\<exists>r d'. predict [maxed 1] 1 10 11 = Inr (r, d') \<and>
      riskDistribution d' =
        [\<lparr> bk_id = Other, bk_count = 1, bk_customers = [(''A'', ''a@x'', Num 1)] \<rparr>])"
proof -
  have r: "calculateChurnRisk (maxed 1) = Num 1"
    by (simp add: maxed_def baseline_def calculateChurnRisk_sum term_defs)
  have f: "findById [maxed 1] 1 = Some (maxed 1)"
    by (simp add: findById_def maxed_def baseline_def)
  have n: "name (maxed 1) = ''A''" "email (maxed 1) = ''a@x''" "cid (maxed 1) = 1"
    by (simp_all add: maxed_def baseline_def)
  have nn: "calculateChurnRisk (maxed 1) \<noteq> NaN"
    unfolding r by simp
  from predict_stored [OF f nn, of 10 11] obtain r0 c' where
    p: "predict [maxed 1] 1 10 11 = Inr (r0, replaceDoc [maxed 1] c')" and
    "cid c' = 1" "name c' = name (maxed 1)" "email c' = email (maxed 1)"
    "churnRisk c' = calculateChurnRisk (maxed 1)"
    by blast
  then have c': "cid c' = 1" "name c' = ''A''" "email c' = ''a@x''" "churnRisk c' = Num 1"
    using r n by simp_all
  have d': "replaceDoc [maxed 1] c' = [c']"
    using c' n by (simp add: replaceDoc_def)
  have h: "riskDistribution [c'] =
        [\<lparr> bk_id = Other, bk_count = 1, bk_customers = [(''A'', ''a@x'', Num 1)] \<rparr>]"
    using c' by (simp add: riskDistribution_def bucketFor_def bucketOf_boundaries boundaries_def)
  have b: "bucketOf boundaries (Num 1) = Other"
    by (simp add: bucketOf_boundaries)
  from p d' h have "\<exists>r d'. predict [maxed 1] 1 10 11 = Inr (r, d') \<and>
      riskDistribution d' =
        [\<lparr> bk_id = Other, bk_count = 1, bk_customers = [(''A'', ''a@x'', Num 1)] \<rparr>]"
    by (intro exI [of _ r0] exI [of _ "[c']"]) simp
  with r b show ?thesis by (intro conjI)
qed

section \<open>Risk and status after a write\<close>

text \<open>The create route stores the status derived from the stored risk, and, when the
  score is a number, that score as the risk; so does the predict route
  (\<open>predict_stored\<close>).\<close>

lemma pre_save_new:
  "status (pre_save fm True c) = determineStatus (pre_save fm True c) \<and>
   (calculateChurnRisk c \<noteq> NaN \<longrightarrow>
      churnRisk (pre_save fm True c) = calculateChurnRisk (pre_save fm True c))"
proof -
  let ?c1 = "setChurnRisk c (calculateChurnRisk c)"
  have e: "pre_save fm True c = ?c1\<lparr>status := determineStatus ?c1\<rparr>"
    by (simp add: pre_save_def Let_def)
  have r: "calculateChurnRisk (?c1\<lparr>status := determineStatus ?c1\<rparr>) = calculateChurnRisk c"
    by (rule calculateChurnRisk_cong) (simp_all add: setChurnRisk_def)
  have s: "determineStatus (?c1\<lparr>status := determineStatus ?c1\<rparr>) = determineStatus ?c1"
    by (simp add: determineStatus_def)
  show ?thesis unfolding e r s by (simp add: setChurnRisk_def)
qed

lemma createCustomer_consistent:
  assumes "createCustomer d i now body = Inr (c, d')"
  shows "d' = d @ [c] \<and> status c = determineStatus c \<and>
         (calculateChurnRisk c \<noteq> NaN \<longrightarrow> churnRisk c = calculateChurnRisk c)"
proof -
  from assms have c: "c = pre_save False True (newCustomer i now body)" and d': "d' = d @ [c]"
    by (auto simp: createCustomer_def Let_def split: if_splits)
  let ?n = "newCustomer i now body"
  have r: "calculateChurnRisk (pre_save False True ?n) = calculateChurnRisk ?n"
    by (rule calculateChurnRisk_cong) (simp_all add: pre_save_def Let_def setChurnRisk_def)
  show ?thesis
    using d' pre_save_new [of False ?n] unfolding c r by simp
qed

text \<open>
  C4. The claim is that after every write, the update route included, the stored status is
  the classifier's value for the stored risk and both are recomputed from the new
  features. The create route does this (first three conjuncts). The update route writes
  the body's paths with a query, which does not run the hook: after an edit of the
  feature set the stored risk is still 0.5 and the status \<open>at_risk\<close>, where the new
  features score 0.75, that is \<open>churned\<close>; and a body that names \<open>churnRisk\<close> leaves a
  stored risk of 0.9 beside the status \<open>at_risk\<close>.
\<close>

theorem update_leaves_risk_and_status_stale:
  "createCustomer [] 1 0 baselineBody = Inr (storedBaseline, [storedBaseline]) \<and>
   churnRisk storedBaseline = calculateChurnRisk storedBaseline \<and>
   status storedBaseline = determineStatus storedBaseline \<and>
   updateCustomer [storedBaseline] 1 5 featuresEdit =
     Inr (storedBaseline\<lparr>features := (features (baseline 1))\<lparr>daysSinceLastLogin := Num 30\<rparr>,
                          updatedAt := 5\<rparr>,
          [storedBaseline\<lparr>features := (features (baseline 1))\<lparr>daysSinceLastLogin := Num 30\<rparr>,
                          updatedAt := 5\<rparr>]) \<and>
   churnRisk (storedBaseline\<lparr>features := (features (baseline 1))\<lparr>daysSinceLastLogin := Num 30\<rparr>,
                          updatedAt := 5\<rparr>) = Num 0.5 \<and>
   calculateChurnRisk (storedBaseline\<lparr>features := (features (baseline 1))\<lparr>daysSinceLastLogin := Num 30\<rparr>,
                          updatedAt := 5\<rparr>) = Num 0.75 \<and>
   status (storedBaseline\<lparr>features := (features (baseline 1))\<lparr>daysSinceLastLogin := Num 30\<rparr>,
                          updatedAt := 5\<rparr>) = at_risk \<and>
   determineStatus (storedBaseline\<lparr>churnRisk := Num 0.75\<rparr>) = churned \<and>
   updateCustomer [storedBaseline] 1 5 riskEdit =
     Inr (storedBaseline\<lparr>churnRisk := Num 0.9, updatedAt := 5\<rparr>,
          [storedBaseline\<lparr>churnRisk := Num 0.9, updatedAt := 5\<rparr>]) \<and>
   status (storedBaseline\<lparr>churnRisk := Num 0.9, updatedAt := 5\<rparr>) = at_risk \<and>
   determineStatus (storedBaseline\<lparr>churnRisk := Num 0.9, updatedAt := 5\<rparr>) = churned"
proof -
  have c: "createCustomer [] 1 0 baselineBody = Inr (storedBaseline, [storedBaseline])"
    by (simp add: createCustomer_def hasRequired_def validBody_def validFeatures_def
        castable_def baselineBody_def emptyBody_def holds_def baseline_def Let_def
        pre_save_def setChurnRisk_def newCustomer_def orDefault_def determineStatus_def
        calculateChurnRisk_sum term_defs storedBaseline_def trim_def isSpace_def
        toLowerCase_def toLowerChar_def)
  have f: "findById [storedBaseline] 1 = Some storedBaseline"
    by (simp add: findById_def storedBaseline_def baseline_def)
  have i: "cid storedBaseline = 1"
    by (simp add: storedBaseline_def baseline_def)
  have u1: "updateCustomer [storedBaseline] 1 5 featuresEdit =
     Inr (storedBaseline\<lparr>features := (features (baseline 1))\<lparr>daysSinceLastLogin := Num 30\<rparr>,
                          updatedAt := 5\<rparr>,
          [storedBaseline\<lparr>features := (features (baseline 1))\<lparr>daysSinceLastLogin := Num 30\<rparr>,
                          updatedAt := 5\<rparr>])"
    by (simp add: updateCustomer_def f [unfolded One_nat_def] i [unfolded One_nat_def] Let_def
        validBody_def validFeatures_def castable_def featuresEdit_def emptyBody_def
        holds_def applyBody_def orDefault_def replaceDoc_def baseline_def)
  have u2: "updateCustomer [storedBaseline] 1 5 riskEdit =
     Inr (storedBaseline\<lparr>churnRisk := Num 0.9, updatedAt := 5\<rparr>,
          [storedBaseline\<lparr>churnRisk := Num 0.9, updatedAt := 5\<rparr>])"
    by (simp add: updateCustomer_def f [unfolded One_nat_def] i [unfolded One_nat_def] Let_def
        validBody_def validRisk_def riskEdit_def emptyBody_def
        holds_def applyBody_def orDefault_def replaceDoc_def)
  have rest: "churnRisk storedBaseline = calculateChurnRisk storedBaseline"
    "status storedBaseline = determineStatus storedBaseline"
    "churnRisk (storedBaseline\<lparr>features := (features (baseline 1))\<lparr>daysSinceLastLogin := Num 30\<rparr>,
                          updatedAt := 5\<rparr>) = Num 0.5"
    "calculateChurnRisk (storedBaseline\<lparr>features := (features (baseline 1))\<lparr>daysSinceLastLogin := Num 30\<rparr>,
                          updatedAt := 5\<rparr>) = Num 0.75"
    "status (storedBaseline\<lparr>features := (features (baseline 1))\<lparr>daysSinceLastLogin := Num 30\<rparr>,
                          updatedAt := 5\<rparr>) = at_risk"
    "determineStatus (storedBaseline\<lparr>churnRisk := Num 0.75\<rparr>) = churned"
    "status (storedBaseline\<lparr>churnRisk := Num 0.9, updatedAt := 5\<rparr>) = at_risk"
    "determineStatus (storedBaseline\<lparr>churnRisk := Num 0.9, updatedAt := 5\<rparr>) = churned"
    by (simp_all add: storedBaseline_def baseline_def determineStatus_def
        calculateChurnRisk_sum term_defs)
  from c u1 u2 rest show ?thesis by (intro conjI)
qed

end
